theory Spec2Isabelle
  imports Complex_Main
begin

section \<open>Vector: the rank-1, size-3 specialisation of the algebraic container\<close>

text \<open>
  Source: \<^verbatim>\<open>src/OpenFOAM/primitives/Vector/VectorI.H\<close>, the inline members and
  global operators of the class template \<^verbatim>\<open>Vector<Cmpt>\<close>.  The component type
  \<^verbatim>\<open>Cmpt\<close> is the type parameter \<open>'a\<close>; the arithmetic the operators use
  (\<open>*\<close>, \<open>+\<close>, \<open>-\<close>) is taken from the type classes of \<open>'a\<close>, so every result
  below holds for integer components (\<open>int\<close>, or \<open>'n word\<close> with wrap-around) as well as
  for exact real ones.  Rounding of floating-point components is not modelled.
\<close>

text \<open>
  Modelled from the spec: the enumeration \<^verbatim>\<open>components { X, Y, Z }\<close> of Vector.H, which
  is not among the sources; VectorI.H indexes the component array with its three
  names (the spec's first, second and third position).
\<close>

datatype components = X | Y | Z

text \<open>
  The only data member is inherited from VectorSpace: the array \<^verbatim>\<open>Cmpt v_[3]\<close>.  It is a
  total function on the three indices, so the size is fixed by the type.
\<close>

record 'a Vector =
  v_arr :: "components \<Rightarrow> 'a"

text \<open>
  \<^verbatim>\<open>Vector(const Cmpt& vx, const Cmpt& vy, const Cmpt& vz)\<close>: the body assigns
  \<^verbatim>\<open>v_[X] = vx; v_[Y] = vy; v_[Z] = vz\<close>, one assignment for each cell.
\<close>

definition Vector :: "'a \<Rightarrow> 'a \<Rightarrow> 'a \<Rightarrow> 'a Vector" where
  "Vector vx vy vz = \<lparr>v_arr = (\<lambda>c. case c of X \<Rightarrow> vx | Y \<Rightarrow> vy | Z \<Rightarrow> vz)\<rparr>"

text \<open>The const accessors: \<^verbatim>\<open>return this->v_[X]\<close> and likewise for Y and Z.\<close>

definition x :: "'a Vector \<Rightarrow> 'a" where
  "x this = v_arr this X"

definition y :: "'a Vector \<Rightarrow> 'a" where
  "y this = v_arr this Y"

definition z :: "'a Vector \<Rightarrow> 'a" where
  "z this = v_arr this Z"

text \<open>
  The non-const accessors have the same bodies but return \<^verbatim>\<open>Cmpt&\<close>: the result is the
  cell itself, not its content.  A reference into the array of a vector is modelled by
  the index of the cell it designates; \<open>load\<close> and \<open>store\<close> are the two things C++ does
  with such a reference (read the cell, assign to the cell).
\<close>

definition x_ref :: "'a Vector \<Rightarrow> components" where
  "x_ref this = X"

definition y_ref :: "'a Vector \<Rightarrow> components" where
  "y_ref this = Y"

definition z_ref :: "'a Vector \<Rightarrow> components" where
  "z_ref this = Z"

definition load :: "'a Vector \<Rightarrow> components \<Rightarrow> 'a" where
  "load this r = v_arr this r"

definition store :: "'a Vector \<Rightarrow> components \<Rightarrow> 'a \<Rightarrow> 'a Vector" where
  "store this r c = this\<lparr>v_arr := (v_arr this)(r := c)\<rparr>"

text \<open>
  \<^verbatim>\<open>centre(const List<Vector<Cmpt> >&) const\<close>: the parameter is unnamed and the body is
  \<^verbatim>\<open>return *this\<close>.
\<close>

definition centre :: "'a Vector \<Rightarrow> 'a Vector list \<Rightarrow> 'a Vector" where
  "centre this L = this"

text \<open>
  \<^verbatim>\<open>operator&\<close>, the inner product; its result type
  \<^verbatim>\<open>innerProduct<Vector<Cmpt>, Vector<Cmpt> >::type\<close> is built from the returned
  \<^verbatim>\<open>Cmpt(...)\<close>, a single component.
\<close>

definition inner :: "'a::{times,plus} Vector \<Rightarrow> 'a Vector \<Rightarrow> 'a" where
  "inner v1 v2 = x v1 * x v2 + y v1 * y v2 + z v1 * z v2"

text \<open>\<^verbatim>\<open>operator^\<close>, the cross product.\<close>

definition cross :: "'a::{times,minus} Vector \<Rightarrow> 'a Vector \<Rightarrow> 'a Vector" where
  "cross v1 v2 =
     Vector (y v1 * z v2 - z v1 * y v2)
            (z v1 * x v2 - x v1 * z v2)
            (x v1 * y v2 - y v1 * x v2)"

text \<open>
  Modelled from the spec: the unary minus and the zero value of the generic container
  (VectorSpaceI.H and Vector.H, not among the sources).  The spec makes all arithmetic
  of the container component-wise, and the zero vector has every component zero.
\<close>

definition negate :: "'a::uminus Vector \<Rightarrow> 'a Vector" where
  "negate v = Vector (- x v) (- y v) (- z v)"

definition zero :: "'a::zero Vector" where
  "zero = Vector 0 0 0"

subsection \<open>Construction: which cells a constructor assigns\<close>

text \<open>
  A constructor runs on the storage of the object after the base class VectorSpace has
  been constructed.  To say which cells it assigns, the storage is a map from the three
  indices to their content, where \<open>None\<close> is a cell that nothing has assigned yet
  (an indeterminate value in C++).  The constructor of VectorSpace is not among the
  sources, so the storage it leaves behind is the argument \<open>this\<close>.
\<close>

type_synonym 'a storage = "components \<Rightarrow> 'a option"

text \<open>\<^verbatim>\<open>Vector()\<close>: no member initialiser and an empty body \<^verbatim>\<open>{}\<close>.\<close>

definition Vector_null :: "'a storage \<Rightarrow> 'a storage" where
  "Vector_null this = this"

text \<open>The three-component constructor on the same storage, for comparison.\<close>

definition Vector_init :: "'a \<Rightarrow> 'a \<Rightarrow> 'a \<Rightarrow> 'a storage \<Rightarrow> 'a storage" where
  "Vector_init vx vy vz this = this(X \<mapsto> vx, Y \<mapsto> vy, Z \<mapsto> vz)"

text \<open>Storage that has never been written: every cell is indeterminate.\<close>

definition indeterminate :: "'a storage" where
  "indeterminate = (\<lambda>c. None)"

datatype read_error = IndeterminateValue

text \<open>
  Reading a cell of an object under construction: the content if the cell has been
  assigned, an error if it has not.
\<close>

definition read_cell :: "'a storage \<Rightarrow> components \<Rightarrow> read_error + 'a" where
  "read_cell this c = (case this c of None \<Rightarrow> Inl IndeterminateValue | Some a \<Rightarrow> Inr a)"

text \<open>
  The vector value an object holds once all three cells are assigned; \<open>None\<close> while one
  of them is still indeterminate.
\<close>

definition value_of :: "'a storage \<Rightarrow> 'a Vector option" where
  "value_of this =
     (case (this X, this Y, this Z) of
        (Some a, Some b, Some c) \<Rightarrow> Some (Vector a b c)
      | _ \<Rightarrow> None)"

section \<open>Specie: the mixing algebra\<close>

text \<open>
  Source: the class declaration of \<^verbatim>\<open>Foam::specie\<close> (specie.H).  The private data are
  the two scalars \<^verbatim>\<open>nMoles_\<close> and \<^verbatim>\<open>molWeight_\<close>; the member \<^verbatim>\<open>word name_\<close> is
  commented out, so a specie stores no name.  Scalars are modelled as exact reals:
  rounding is not modelled.
\<close>

record specie =
  nMoles :: real
  molWeight :: real

text \<open>
  Modelled from the spec: \<^verbatim>\<open>operator+\<close> of specieI.H, which is declared in specie.H but
  whose body is not among the sources.  The spec: \<open>a + b\<close> is a new specie with
  \<open>nMoles = a.nMoles + b.nMoles\<close> and
  \<open>molWeight = (a.nMoles*a.molWeight + b.nMoles*b.molWeight) / (a.nMoles + b.nMoles)\<close>.
  A combined mole count of zero is a precondition violation that the caller must avoid;
  the spec leaves the outcome open there (a failure, or an undefined result), and so the
  quotient of the model at \<open>a.nMoles + b.nMoles = 0\<close> carries no information.
\<close>

definition specie_add :: "specie \<Rightarrow> specie \<Rightarrow> specie" where
  "specie_add a b =
     \<lparr>nMoles = nMoles a + nMoles b,
      molWeight = (nMoles a * molWeight a + nMoles b * molWeight b)
                  / (nMoles a + nMoles b)\<rparr>"


text \<open>
  \<^verbatim>\<open>operator==\<close> is declared among the friend operators of specie.H as
  \<^verbatim>\<open>inline friend specie operator==(const specie&, const specie&)\<close>: like \<open>+\<close>, \<open>-\<close> and
  \<open>*\<close> it returns a specie.  Its body is in specieI.H, not among the sources, so which
  specie it returns is left open: the relation below admits every specie as the result,
  and nothing else.  What a C++ expression returns is either a truth value or a specie.
\<close>

datatype returned = ReturnsBool bool | ReturnsSpecie specie

inductive operator_eq :: "specie \<Rightarrow> specie \<Rightarrow> returned \<Rightarrow> bool" where
  returns_specie: "operator_eq st1 st2 (ReturnsSpecie r)"

code_pred operator_eq .

text \<open>
  The comparison in the words of the spec, to set against the declaration: two species
  are equal when mole count and molecular weight match.
\<close>

definition fieldwise_equal :: "specie \<Rightarrow> specie \<Rightarrow> bool" where
  "fieldwise_equal a b \<longleftrightarrow> nMoles a = nMoles b \<and> molWeight a = molWeight b"

section \<open>Theorems about Vector\<close>

lemma Vector_x: "x (Vector a b c) = a"
  by (simp add: x_def Vector_def)

lemma Vector_y: "y (Vector a b c) = b"
  by (simp add: y_def Vector_def)

lemma Vector_z: "z (Vector a b c) = c"
  by (simp add: z_def Vector_def)

lemma Vector_eq_iff: "Vector a b c = Vector a' b' c' \<longleftrightarrow> a = a' \<and> b = b' \<and> c = c'"
proof
  assume eq: "Vector a b c = Vector a' b' c'"
  have "x (Vector a b c) = x (Vector a' b' c')"
    and "y (Vector a b c) = y (Vector a' b' c')"
    and "z (Vector a b c) = z (Vector a' b' c')"
    using eq by simp_all
  then show "a = a' \<and> b = b' \<and> c = c'"
    by (simp add: Vector_x Vector_y Vector_z)
next
  assume "a = a' \<and> b = b' \<and> c = c'"
  then show "Vector a b c = Vector a' b' c'" by simp
qed

lemma Vector_collapse: "Vector (x v) (y v) (z v) = v"
proof -
  have "(\<lambda>c. case c of X \<Rightarrow> v_arr v X | Y \<Rightarrow> v_arr v Y | Z \<Rightarrow> v_arr v Z) = v_arr v"
  proof
    fix c show "(case c of X \<Rightarrow> v_arr v X | Y \<Rightarrow> v_arr v Y | Z \<Rightarrow> v_arr v Z) = v_arr v c"
      by (cases c) simp_all
  qed
  then show ?thesis
    by (simp add: Vector_def x_def y_def z_def)
qed

lemma value_of_Vector_init: "value_of (Vector_init vx vy vz this) = Some (Vector vx vy vz)"
  by (simp add: value_of_def Vector_init_def)

text \<open>
  C5. For all vectors \<open>a = (a1, a2, a3)\<close> and \<open>b = (b1, b2, b3)\<close>, the product \<open>a ^ b\<close>
  is the vector \<open>(a2*b3 - a3*b2, a3*b1 - a1*b3, a1*b2 - a2*b1)\<close>: the determinant
  expansion, again a vector of three components.
\<close>

theorem cross_determinant_expansion:
  "cross (Vector a1 a2 a3) (Vector b1 b2 b3) =
     Vector (a2 * b3 - a3 * b2) (a3 * b1 - a1 * b3) (a1 * b2 - a2 * b1)"
  by (simp add: cross_def Vector_x Vector_y Vector_z)

text \<open>
  C6. The cross product is anticommutative, \<open>a ^ b = -(b ^ a)\<close> with the negation taken
  component by component, and \<open>a ^ a\<close> is the zero vector.  Proved for components of any
  commutative ring.
\<close>

theorem cross_anticommutative:
  fixes a b :: "'a::comm_ring Vector"
  shows "cross a b = negate (cross b a) \<and> cross a a = zero"
  by (simp add: cross_def negate_def zero_def Vector_x Vector_y Vector_z Vector_eq_iff
      mult.commute)

text \<open>
  C7. The inner product is commutative, \<open>a & b = b & a\<close>; its value is a single
  component (rank 0), as the type of \<open>inner\<close> says.  Proved for components of any
  commutative ring.
\<close>

theorem inner_commutative:
  fixes a b :: "'a::comm_ring Vector"
  shows "inner a b = inner b a"
  by (simp add: inner_def mult.commute)

text \<open>
  C8. The accessors \<open>x()\<close>, \<open>y()\<close>, \<open>z()\<close> return the content of the cells X, Y, Z of
  the component array, in the const overloads (a value) and in the non-const ones (a
  reference to the cell: reading it gives the same content, assigning to it changes
  that cell of the array and no other).  The vector has no state besides the three
  cells: it is rebuilt from the three accessor values.
\<close>

theorem accessors_view_component_array:
  "x v = v_arr v X \<and> y v = v_arr v Y \<and> z v = v_arr v Z
   \<and> load v (x_ref v) = v_arr v X \<and> load v (y_ref v) = v_arr v Y \<and> load v (z_ref v) = v_arr v Z
   \<and> v_arr (store v (x_ref v) c) = (v_arr v)(X := c)
   \<and> v_arr (store v (y_ref v) c) = (v_arr v)(Y := c)
   \<and> v_arr (store v (z_ref v) c) = (v_arr v)(Z := c)
   \<and> x (store v (x_ref v) c) = c \<and> y (store v (y_ref v) c) = c \<and> z (store v (z_ref v) c) = c
   \<and> Vector (x v) (y v) (z v) = v"
  by (simp add: x_def y_def z_def x_ref_def y_ref_def z_ref_def load_def store_def
      Vector_collapse [unfolded x_def y_def z_def])

text \<open>
  C9. \<open>v.centre(L)\<close> returns \<open>v\<close> itself, whatever the list \<open>L\<close> is.
\<close>

theorem centre_returns_this:
  "centre v L = v \<and> centre v L = centre v L'"
  by (simp add: centre_def)

text \<open>
  C10. The default constructor assigns none of the three cells: the storage is after
  \<open>Vector()\<close> what it was before.  On storage that was never written, every cell is
  still indeterminate afterwards, so reading any component is an error and the object
  holds no vector value; in particular it is not what the constructor from three zero
  components leaves.
\<close>

theorem Vector_null_assigns_no_cell:
  "Vector_null this = this
   \<and> (\<forall>c. read_cell (Vector_null indeterminate) c = Inl IndeterminateValue)
   \<and> value_of (Vector_null indeterminate) = (None :: 'a::zero Vector option)
   \<and> value_of (Vector_init 0 0 0 indeterminate) = Some (zero :: 'a Vector)"
  by (simp add: Vector_null_def indeterminate_def read_cell_def value_of_def Vector_init_def
      zero_def)

section \<open>Theorems about specie\<close>

text \<open>
  C1. For every pair of species \<open>a\<close> and \<open>b\<close>, \<open>a + b\<close> is a specie whose mole count
  is \<open>a.nMoles + b.nMoles\<close> and whose molecular weight is
  \<open>(a.nMoles*a.molWeight + b.nMoles*b.molWeight) / (a.nMoles + b.nMoles)\<close>; in particular
  \<open>specie(2, 28) + specie(1, 32)\<close> has 3 moles and molecular weight \<open>(2*28 + 1*32)/3\<close>.
\<close>

theorem specie_add_mixes:
  "nMoles (specie_add a b) = nMoles a + nMoles b
   \<and> molWeight (specie_add a b)
       = (nMoles a * molWeight a + nMoles b * molWeight b) / (nMoles a + nMoles b)
   \<and> specie_add \<lparr>nMoles = 2, molWeight = 28\<rparr> \<lparr>nMoles = 1, molWeight = 32\<rparr>
       = \<lparr>nMoles = 3, molWeight = (2 * 28 + 1 * 32) / 3\<rparr>"
  by (simp add: specie_add_def)

text \<open>
  C2, as the claim states it, fails: comparing a specie with itself, where mole count
  and molecular weight match, does not return true, because \<open>==\<close> does not return a
  truth value.
\<close>

theorem operator_eq_not_true:
  "fieldwise_equal \<lparr>nMoles = 1, molWeight = 28\<rparr> \<lparr>nMoles = 1, molWeight = 28\<rparr>
   \<and> \<not> operator_eq \<lparr>nMoles = 1, molWeight = 28\<rparr> \<lparr>nMoles = 1, molWeight = 28\<rparr>
         (ReturnsBool True)"
  by (auto simp: fieldwise_equal_def elim: operator_eq.cases)

text \<open>
  C2 (amended). The operator \<open>==\<close> on two species returns a specie, as \<open>+\<close>, \<open>-\<close> and \<open>*\<close>
  do, and never a truth value: it is not a boolean comparison.
\<close>

theorem operator_eq_returns_a_specie:
  "operator_eq st1 st2 r \<Longrightarrow> (\<exists>s. r = ReturnsSpecie s) \<and> (\<forall>t. r \<noteq> ReturnsBool t)"
  by (auto elim: operator_eq.cases)

theorem operator_eq_returns_a_specie_witness:
  "operator_eq \<lparr>nMoles = 1, molWeight = 28\<rparr> \<lparr>nMoles = 1, molWeight = 28\<rparr>
     (ReturnsSpecie \<lparr>nMoles = 0, molWeight = 0\<rparr>)
   \<and> (\<exists>s. ReturnsSpecie \<lparr>nMoles = 0, molWeight = 0\<rparr> = ReturnsSpecie s)
   \<and> (\<forall>t. ReturnsSpecie \<lparr>nMoles = 0, molWeight = 0\<rparr> \<noteq> ReturnsBool t)"
proof -
  have h: "operator_eq \<lparr>nMoles = 1, molWeight = 28\<rparr> \<lparr>nMoles = 1, molWeight = 28\<rparr>
             (ReturnsSpecie \<lparr>nMoles = 0, molWeight = 0\<rparr>)"
    by (rule returns_specie)
  show ?thesis
    using h operator_eq_returns_a_specie [OF h] by simp
qed





end
